theory Spec2Isabelle
  imports Main
begin

section \<open>The worker of \<^verbatim>\<open>src/index.ts\<close>: a read-through cache in front of an upstream API\<close>

text \<open>
  The handler \<^verbatim>\<open>fetch(request, env)\<close> is one linear \<^verbatim>\<open>async\<close> function. It talks to
  three collaborators: the R2 bucket \<^verbatim>\<open>env.MY_BUCKET\<close> (\<^verbatim>\<open>get\<close>, \<^verbatim>\<open>put\<close>), the global
  \<^verbatim>\<open>fetch\<close> that reaches the upstream API, and the clock \<^verbatim>\<open>Date.now()\<close>. The model
  makes them a record \<open>world\<close>; the handler returns its response, the list of calls it
  made on the collaborators, in order, and the bucket as it leaves it. Every
  \<^verbatim>\<open>try\<close>/\<^verbatim>\<open>catch\<close> of the source is a case split on a sum whose left side is the
  exception. The \<^verbatim>\<open>console.log\<close> lines are not modelled.
  The model follows lines 1 to 131 of the file; the text after them is the handler's
  predecessor, which used the one key \<^verbatim>\<open>latest.json\<close>, and is not modelled.

  A JavaScript string is a list of code units; the model's \<open>char\<close> covers the code
  units below 256.
\<close>

subsection \<open>Values of the language\<close>

type_synonym headers = "(string \<times> string) list"

text \<open>
  A number, as far as the handler needs one: \<^verbatim>\<open>NaN\<close> or an integer. \<open>Num\<close> carries
  the mathematical integer; the rounding of integers beyond \<open>2^53\<close> to a double is
  outside the model.
\<close>

datatype js_number = NaN | Num int

text \<open>
  The value \<^verbatim>\<open>response.json()\<close> yields and \<^verbatim>\<open>JSON.stringify\<close> consumes. The handler
  never computes with the payload, so a number of the payload is held as the text
  \<^verbatim>\<open>JSON.stringify\<close> prints for it; an object is its properties in enumeration order.
\<close>

datatype json =
    JNull
  | JBool bool
  | JNumber string
  | JString string
  | JArray "json list"
  | JObject "(string \<times> json) list"

datatype js_error =
    R2Error
  | NetworkError
  | HttpError nat string
  | SyntaxError

subsection \<open>The operator \<^verbatim>\<open>||\<close>\<close>

text \<open>
  \<^verbatim>\<open>a || b\<close> is \<open>b\<close> when \<open>a\<close> is falsy. For a \<^verbatim>\<open>string | null\<close> the falsy values are
  \<^verbatim>\<open>null\<close> and the empty string; for a number they are \<^verbatim>\<open>NaN\<close> and zero.
\<close>

fun or_string :: "string option \<Rightarrow> string \<Rightarrow> string" where
  "or_string None d = d"
| "or_string (Some s) d = (if s = [] then d else s)"

fun or_number :: "js_number \<Rightarrow> js_number \<Rightarrow> js_number" where
  "or_number NaN d = d"
| "or_number (Num n) d = (if n = 0 then d else Num n)"

subsection \<open>\<^verbatim>\<open>parseInt\<close> with no radix argument\<close>

text \<open>
  ECMAScript's \<^verbatim>\<open>parseInt(string)\<close>: leading white space is dropped, then an optional
  sign, then \<^verbatim>\<open>0x\<close> or \<^verbatim>\<open>0X\<close> selects radix 16 (radix 10 otherwise); the longest prefix
  of digits of that radix is the number, and no digit at all gives \<^verbatim>\<open>NaN\<close>.
\<close>

definition isWhiteSpace :: "char \<Rightarrow> bool" where
  "isWhiteSpace c = (c \<in> set [CHR 0x09, CHR 0x0A, CHR 0x0B, CHR 0x0C, CHR 0x0D, CHR 0x20, CHR 0xA0])"

definition digitValue :: "char \<Rightarrow> nat option" where
  "digitValue c =
     (let n = (of_char c :: nat) in
      if 48 \<le> n \<and> n \<le> 57 then Some (n - 48)
      else if 97 \<le> n \<and> n \<le> 122 then Some (n - 87)
      else if 65 \<le> n \<and> n \<le> 90 then Some (n - 55)
      else None)"

definition isRadixDigit :: "nat \<Rightarrow> char \<Rightarrow> bool" where
  "isRadixDigit R c = (case digitValue c of None \<Rightarrow> False | Some d \<Rightarrow> d < R)"

definition radixValue :: "nat \<Rightarrow> string \<Rightarrow> int" where
  "radixValue R Z =
     foldl (\<lambda>acc c. acc * int R + (case digitValue c of None \<Rightarrow> 0 | Some d \<Rightarrow> int d)) 0 Z"

definition parseInt :: "string \<Rightarrow> js_number" where
  "parseInt inputString =
     (let S = dropWhile isWhiteSpace inputString;
          sign = (if take 1 S = ''-'' then - 1 else (1::int));
          S1 = (if take 1 S = ''+'' \<or> take 1 S = ''-'' then drop 1 S else S);
          hex = (take 2 S1 = ''0x'' \<or> take 2 S1 = ''0X'');
          R = (if hex then 16 else (10::nat));
          S2 = (if hex then drop 2 S1 else S1);
          Z = takeWhile (isRadixDigit R) S2
      in if Z = [] then NaN else Num (sign * radixValue R Z))"

subsection \<open>Number to string\<close>

fun digits :: "nat \<Rightarrow> string" where
  "digits n = (if n < 10 then [char_of (48 + n)] else digits (n div 10) @ [char_of (48 + n mod 10)])"

fun Number_toString :: "js_number \<Rightarrow> string" where
  "Number_toString NaN = ''NaN''"
| "Number_toString (Num n) = (if n < 0 then ''-'' @ digits (nat (- n)) else digits (nat n))"

subsection \<open>\<^verbatim>\<open>JSON.stringify\<close>\<close>

definition hexDigit :: "nat \<Rightarrow> char" where
  "hexDigit n = (if n < 10 then char_of (48 + n) else char_of (87 + n))"

definition quoteChar :: "char \<Rightarrow> string" where
  "quoteChar c =
     (if c = CHR 0x22 then [CHR 0x5C, CHR 0x22]
      else if c = CHR 0x5C then [CHR 0x5C, CHR 0x5C]
      else if c = CHR 0x08 then [CHR 0x5C, CHR ''b'']
      else if c = CHR 0x09 then [CHR 0x5C, CHR ''t'']
      else if c = CHR 0x0A then [CHR 0x5C, CHR ''n'']
      else if c = CHR 0x0C then [CHR 0x5C, CHR ''f'']
      else if c = CHR 0x0D then [CHR 0x5C, CHR ''r'']
      else if (of_char c :: nat) < 32 then
        [CHR 0x5C, CHR ''u'', CHR ''0'', CHR ''0'',
         hexDigit ((of_char c :: nat) div 16), hexDigit ((of_char c :: nat) mod 16)]
      else [c])"

definition quoteJSONString :: "string \<Rightarrow> string" where
  "quoteJSONString s = [CHR 0x22] @ concat (map quoteChar s) @ [CHR 0x22]"

fun commaSep :: "string list \<Rightarrow> string" where
  "commaSep [] = []"
| "commaSep [x] = x"
| "commaSep (x # y # ys) = x @ '','' @ commaSep (y # ys)"

fun JSON_stringify :: "json \<Rightarrow> string" where
  "JSON_stringify JNull = ''null''"
| "JSON_stringify (JBool b) = (if b then ''true'' else ''false'')"
| "JSON_stringify (JNumber s) = s"
| "JSON_stringify (JString s) = quoteJSONString s"
| "JSON_stringify (JArray xs) = ''['' @ commaSep (map JSON_stringify xs) @ '']''"
| "JSON_stringify (JObject kvs) =
     ''{'' @ commaSep (map (\<lambda>kv. quoteJSONString (fst kv) @ '':'' @ JSON_stringify (snd kv)) kvs) @ ''}''"

subsection \<open>Requests, responses and the collaborators\<close>

text \<open>
  A request is its method and the query parameters of its URL, in order, as
  \<^verbatim>\<open>url.searchParams\<close> holds them; \<^verbatim>\<open>searchParams.get\<close> returns the first value of a
  name, or \<^verbatim>\<open>null\<close>.
\<close>

record request =
  "method" :: string
  searchParams :: "(string \<times> string) list"

definition searchParams_get :: "request \<Rightarrow> string \<Rightarrow> string option" where
  "searchParams_get request name = map_of (searchParams request) name"

text \<open>What the handler reads of an R2 object: its body and \<^verbatim>\<open>uploaded.getTime()\<close>, in milliseconds.\<close>

record r2object =
  body :: string
  uploaded :: int

text \<open>A response the handler builds: \<^verbatim>\<open>new Response(payload, {headers, status})\<close>.\<close>

record response =
  status :: nat
  headers :: headers
  payload :: string

text \<open>
  What the handler reads of the upstream's response: its status, from which \<^verbatim>\<open>ok\<close> follows,
  and the result of \<^verbatim>\<open>response.json()\<close>, \<open>None\<close> when it throws.
\<close>

record upstream_response =
  up_status :: nat
  up_statusText :: string
  up_json :: "json option"

definition ok :: "upstream_response \<Rightarrow> bool" where
  "ok r = (200 \<le> up_status r \<and> up_status r \<le> 299)"

text \<open>
  The world of one invocation. \<open>bucket\<close> is the content of \<^verbatim>\<open>env.MY_BUCKET\<close>;
  \<open>get_throws\<close> and \<open>put_throws\<close> say for which keys a read or a write fails;
  \<open>upload_time\<close> is the time stamp the store gives an object written now; \<open>upstream\<close> is
  the global \<^verbatim>\<open>fetch\<close>, \<open>None\<close> when it throws; \<open>Date_now\<close> is \<^verbatim>\<open>Date.now()\<close>.
\<close>

record world =
  bucket :: "string \<rightharpoonup> r2object"
  get_throws :: "string \<Rightarrow> bool"
  put_throws :: "string \<Rightarrow> bool"
  upload_time :: int
  upstream :: "string \<Rightarrow> headers \<Rightarrow> upstream_response option"
  Date_now :: int
  TWITTER_BEARER_TOKEN :: string

datatype event =
    BucketGet string
  | UpstreamFetch string headers
  | BucketPut string string headers

record outcome =
  returned :: response
  calls :: "event list"
  bucket_after :: "string \<rightharpoonup> r2object"

definition MY_BUCKET_get :: "world \<Rightarrow> string \<Rightarrow> js_error + r2object option" where
  "MY_BUCKET_get w key = (if get_throws w key then Inl R2Error else Inr (bucket w key))"

text \<open>
  \<^verbatim>\<open>put(key, value, {metadata})\<close>: the metadata is written with the object and never read
  by the handler, so the stored object does not hold it; the call is recorded with it.
\<close>

definition MY_BUCKET_put ::
  "world \<Rightarrow> string \<Rightarrow> string \<Rightarrow> headers \<Rightarrow> js_error + (string \<rightharpoonup> r2object)" where
  "MY_BUCKET_put w key val metadata =
     (if put_throws w key then Inl R2Error
      else Inr ((bucket w)(key \<mapsto> \<lparr>body = val, uploaded = upload_time w\<rparr>)))"

fun is_upstream_call :: "event \<Rightarrow> bool" where
  "is_upstream_call (UpstreamFetch u h) = True"
| "is_upstream_call e = False"

fun is_store_call :: "event \<Rightarrow> bool" where
  "is_store_call (UpstreamFetch u h) = False"
| "is_store_call e = True"

fun store_keys :: "event list \<Rightarrow> string list" where
  "store_keys [] = []"
| "store_keys (BucketGet k # es) = k # store_keys es"
| "store_keys (BucketPut k v m # es) = k # store_keys es"
| "store_keys (UpstreamFetch u h # es) = store_keys es"

definition upstream_calls :: "event list \<Rightarrow> nat" where
  "upstream_calls es = length (filter is_upstream_call es)"

definition store_calls :: "event list \<Rightarrow> nat" where
  "store_calls es = length (filter is_store_call es)"

subsection \<open>The handler\<close>

definition corsHeaders :: headers where
  "corsHeaders =
     [(''Access-Control-Allow-Origin'', ''*''),
      (''Access-Control-Allow-Methods'', ''GET,HEAD,POST,OPTIONS''),
      (''Access-Control-Max-Age'', ''86400'')]"

text \<open>\<^verbatim>\<open>respond\<close>, lines 7 to 11; a status left \<^verbatim>\<open>undefined\<close> is 200.\<close>

definition respond :: "json \<Rightarrow> nat option \<Rightarrow> response" where
  "respond response code =
     \<lparr>status = (case code of None \<Rightarrow> 200 | Some c \<Rightarrow> c),
      headers = (''content-type'', ''application/json'') # corsHeaders,
      payload = JSON_stringify response\<rparr>"

text \<open>The response of lines 83 to 86, 100 to 103 and 125 to 128: the stored body, as it is.\<close>

definition cached_response :: "r2object \<Rightarrow> response" where
  "cached_response object =
     \<lparr>status = 200,
      headers = (''content-type'', ''application/json'') # corsHeaders,
      payload = body object\<rparr>"

text \<open>Lines 33 to 38: the parameters and the cache key.\<close>

definition userid_of :: "request \<Rightarrow> string" where
  "userid_of request = or_string (searchParams_get request ''userid'') ''1472197491844026370''"

definition max_results_of :: "request \<Rightarrow> js_number" where
  "max_results_of request =
     (let max_results_param = or_string (searchParams_get request ''max_results'') ''6''
      in or_number (parseInt max_results_param) (Num 6))"

definition cacheKey_of :: "request \<Rightarrow> string" where
  "cacheKey_of request = userid_of request @ ''.json''"

text \<open>Lines 41 to 47: a read that throws leaves \<^verbatim>\<open>object\<close> at \<^verbatim>\<open>null\<close>.\<close>

definition read_cache :: "world \<Rightarrow> string \<Rightarrow> r2object option" where
  "read_cache w cacheKey = (case MY_BUCKET_get w cacheKey of Inl e \<Rightarrow> None | Inr obj \<Rightarrow> obj)"

definition twitterUrl_of :: "string \<Rightarrow> js_number \<Rightarrow> string" where
  "twitterUrl_of userid max_results =
     ''https://api.twitter.com/2/users/'' @ userid @ ''/tweets?max_results='' @
     Number_toString max_results @
     ''&tweet.fields=created_at,entities,public_metrics&expansions=author_id&user.fields=profile_image_url,username''"

definition upstream_headers :: "world \<Rightarrow> headers" where
  "upstream_headers w =
     [(''content-type'', ''application/json;charset=UTF-8''),
      (''Authorization'', ''Bearer '' @ TWITTER_BEARER_TOKEN w)]"

text \<open>The \<^verbatim>\<open>try\<close> block of lines 63 to 77: the call throws, or the status is not \<^verbatim>\<open>ok\<close> and the block throws.\<close>

definition try_upstream :: "world \<Rightarrow> string \<Rightarrow> js_error + upstream_response" where
  "try_upstream w twitterUrl =
     (case upstream w twitterUrl (upstream_headers w) of
        None \<Rightarrow> Inl NetworkError
      | Some response \<Rightarrow>
          if ok response then Inr response
          else Inl (HttpError (up_status response) (up_statusText response)))"

text \<open>Line 94: \<^verbatim>\<open>response.json()\<close> throws on a body that does not parse.\<close>

definition response_json :: "upstream_response \<Rightarrow> js_error + json" where
  "response_json response = (case up_json response of None \<Rightarrow> Inl SyntaxError | Some data \<Rightarrow> Inr data)"

text \<open>Lines 53 to 122: the branch taken on a miss or a stale object.\<close>

definition refresh :: "world \<Rightarrow> string \<Rightarrow> js_number \<Rightarrow> string \<Rightarrow> r2object option \<Rightarrow> outcome" where
  "refresh w userid max_results cacheKey object =
     (let twitterUrl = twitterUrl_of userid max_results;
          made = [BucketGet cacheKey, UpstreamFetch twitterUrl (upstream_headers w)]
      in case try_upstream w twitterUrl of
           Inl e \<Rightarrow>
             (case object of
                Some obj \<Rightarrow> \<lparr>returned = cached_response obj, calls = made, bucket_after = bucket w\<rparr>
              | None \<Rightarrow>
                  \<lparr>returned =
                     respond (JObject [(''error'', JString ''Failed to fetch data and no cache available'')])
                       (Some 500),
                   calls = made, bucket_after = bucket w\<rparr>)
         | Inr response \<Rightarrow>
             (case response_json response of
                Inl e \<Rightarrow>
                  (case object of
                     Some obj \<Rightarrow> \<lparr>returned = cached_response obj, calls = made, bucket_after = bucket w\<rparr>
                   | None \<Rightarrow>
                       \<lparr>returned =
                          respond (JObject [(''error'', JString ''Failed to parse response and no cache available'')])
                            (Some 500),
                        calls = made, bucket_after = bucket w\<rparr>)
              | Inr data \<Rightarrow>
                  (let metadata = [(''Content-Type'', ''application/json''), (''userid'', userid)];
                       written =
                         (case MY_BUCKET_put w cacheKey (JSON_stringify data) metadata of
                            Inl e \<Rightarrow> bucket w
                          | Inr b \<Rightarrow> b)
                   in \<lparr>returned = respond data None,
                       calls = made @ [BucketPut cacheKey (JSON_stringify data) metadata],
                       bucket_after = written\<rparr>)))"

text \<open>\<^verbatim>\<open>fetch(request, env)\<close>, lines 14 to 130.\<close>

definition fetch :: "request \<Rightarrow> world \<Rightarrow> outcome" where
  "fetch request w =
     (if method request \<noteq> ''GET'' then
        \<lparr>returned = \<lparr>status = 405, headers = [(''Allow'', ''GET'')], payload = ''Method Not Allowed''\<rparr>,
         calls = [], bucket_after = bucket w\<rparr>
      else
        let userid = userid_of request;
            max_results = max_results_of request;
            cacheKey = cacheKey_of request;
            object = read_cache w cacheKey
        in case object of
             None \<Rightarrow> refresh w userid max_results cacheKey object
           | Some obj \<Rightarrow>
               if uploaded obj < Date_now w - 901000 then refresh w userid max_results cacheKey object
               else \<lparr>returned = cached_response obj, calls = [BucketGet cacheKey], bucket_after = bucket w\<rparr>)"

subsection \<open>What the upstream call of a request comes to\<close>

text \<open>
  The outcome of lines 63 to 107 for the URL the handler builds from a request: the error
  caught (\<open>NetworkError\<close> or \<open>HttpError\<close> by the first \<^verbatim>\<open>catch\<close>, \<open>SyntaxError\<close>
  by the second), or the parsed data.
\<close>

definition upstream_attempt :: "world \<Rightarrow> request \<Rightarrow> js_error + json" where
  "upstream_attempt w request =
     (case try_upstream w (twitterUrl_of (userid_of request) (max_results_of request)) of
        Inl e \<Rightarrow> Inl e
      | Inr response \<Rightarrow> response_json response)"

subsection \<open>Example inputs\<close>

text \<open>
  A world whose reads and writes succeed, whose upstream gives the same answer to every
  call, and whose clock and store agree on the time.
\<close>

definition sample_world :: "(string \<rightharpoonup> r2object) \<Rightarrow> upstream_response option \<Rightarrow> int \<Rightarrow> world" where
  "sample_world store answer now =
     \<lparr>bucket = store, get_throws = (\<lambda>key. False), put_throws = (\<lambda>key. False),
      upload_time = now, upstream = (\<lambda>url hs. answer), Date_now = now,
      TWITTER_BEARER_TOKEN = ''secret''\<rparr>"

definition sample_object :: "int \<Rightarrow> r2object" where
  "sample_object t = \<lparr>body = ''{\"data\":[]}'', uploaded = t\<rparr>"

definition sample_request :: "(string \<times> string) list \<Rightarrow> request" where
  "sample_request params = \<lparr>method = ''GET'', searchParams = params\<rparr>"

definition sample_answer :: "nat \<Rightarrow> json option \<Rightarrow> upstream_response option" where
  "sample_answer code parsed = Some \<lparr>up_status = code, up_statusText = '''', up_json = parsed\<rparr>"

section \<open>Properties of the handler\<close>

subsection \<open>Auxiliary facts\<close>

lemma fetch_GET:
  "method r = ''GET'' \<Longrightarrow>
   fetch r w =
     (case read_cache w (cacheKey_of r) of
        None \<Rightarrow> refresh w (userid_of r) (max_results_of r) (cacheKey_of r) None
      | Some obj \<Rightarrow>
          if uploaded obj < Date_now w - 901000
          then refresh w (userid_of r) (max_results_of r) (cacheKey_of r) (Some obj)
          else \<lparr>returned = cached_response obj, calls = [BucketGet (cacheKey_of r)],
                bucket_after = bucket w\<rparr>)"
  by (simp add: fetch_def Let_def split: option.splits)

lemma fetch_depends_on:
  "method r1 = method r2 \<Longrightarrow> userid_of r1 = userid_of r2 \<Longrightarrow>
   max_results_of r1 = max_results_of r2 \<Longrightarrow> fetch r1 w = fetch r2 w"
  by (simp add: fetch_def cacheKey_of_def)

lemma refresh_upstream_calls: "upstream_calls (calls (refresh w u m k obj)) = 1"
  by (simp add: refresh_def Let_def upstream_calls_def split: sum.splits option.splits)

lemma upstream_calls_hit: "upstream_calls [BucketGet k] = 0"
  by (simp add: upstream_calls_def)

lemma refresh_store_keys: "set (store_keys (calls (refresh w u m k obj))) = {k}"
  by (simp add: refresh_def Let_def split: sum.splits option.splits)

lemma refresh_success:
  "try_upstream w (twitterUrl_of u m) = Inr resp \<Longrightarrow> response_json resp = Inr data \<Longrightarrow>
   returned (refresh w u m k obj) = respond data None"
  by (simp add: refresh_def Let_def)

lemma refresh_failure_cached:
  "(case try_upstream w (twitterUrl_of u m) of Inl e \<Rightarrow> Inl e | Inr resp \<Rightarrow> response_json resp) = Inl e \<Longrightarrow>
   returned (refresh w u m k (Some obj)) = cached_response obj"
  by (simp add: refresh_def Let_def split: sum.splits)

lemma refresh_failure_no_cache:
  "(case try_upstream w (twitterUrl_of u m) of Inl e \<Rightarrow> Inl e | Inr resp \<Rightarrow> response_json resp) = Inl e \<Longrightarrow>
   returned (refresh w u m k None) =
     respond
       (JObject [(''error'',
          JString (if e = SyntaxError then ''Failed to parse response and no cache available''
                   else ''Failed to fetch data and no cache available''))])
       (Some 500)"
  by (auto simp add: refresh_def Let_def try_upstream_def response_json_def
      split: sum.splits option.splits if_splits)

lemma refresh_returned_calls_cong:
  "upstream w = upstream w' \<Longrightarrow> TWITTER_BEARER_TOKEN w = TWITTER_BEARER_TOKEN w' \<Longrightarrow>
   returned (refresh w u m k obj) = returned (refresh w' u m k obj) \<and>
   calls (refresh w u m k obj) = calls (refresh w' u m k obj)"
  by (simp add: refresh_def Let_def try_upstream_def upstream_headers_def
      split: sum.splits option.splits)

lemma try_upstream_put_throws: "try_upstream (w\<lparr>put_throws := p\<rparr>) url = try_upstream w url"
  by (simp add: try_upstream_def upstream_headers_def)

lemma read_cache_put_throws: "read_cache (w\<lparr>put_throws := p\<rparr>) k = read_cache w k"
  by (simp add: read_cache_def MY_BUCKET_get_def)

lemma upstream_attempt_success:
  "upstream_attempt w r = Inr data \<Longrightarrow>
   \<exists>resp. try_upstream w (twitterUrl_of (userid_of r) (max_results_of r)) = Inr resp \<and>
          response_json resp = Inr data"
  by (simp add: upstream_attempt_def split: sum.splits)

lemma error_body_fetch:
  "JSON_stringify (JObject [(''error'', JString ''Failed to fetch data and no cache available'')]) =
   ''{\"error\":\"Failed to fetch data and no cache available\"}''"
  by (simp add: quoteJSONString_def quoteChar_def)

lemma error_body_parse:
  "JSON_stringify (JObject [(''error'', JString ''Failed to parse response and no cache available'')]) =
   ''{\"error\":\"Failed to parse response and no cache available\"}''"
  by (simp add: quoteJSONString_def quoteChar_def)

lemma parseInt_6: "parseInt ''6'' = Num 6"
  by (simp add: parseInt_def isWhiteSpace_def isRadixDigit_def digitValue_def radixValue_def)

lemma max_results_absent:
  "searchParams_get r ''max_results'' = None \<Longrightarrow> max_results_of r = Num 6"
  by (simp add: max_results_of_def parseInt_6)

lemma max_results_falsy:
  "searchParams_get r ''max_results'' = Some v \<Longrightarrow> parseInt v = NaN \<or> parseInt v = Num 0 \<Longrightarrow>
   max_results_of r = Num 6"
  by (auto simp add: max_results_of_def parseInt_6)

lemmas sample_defs =
  sample_world_def sample_object_def sample_request_def sample_answer_def
  cacheKey_of_def userid_of_def searchParams_get_def MY_BUCKET_get_def read_cache_def
  upstream_attempt_def try_upstream_def response_json_def ok_def

subsection \<open>The cache key\<close>

text \<open>
  Claim C1. The cache key of a request is its subject identifier (the \<^verbatim>\<open>userid\<close> of
  line 33) followed by \<^verbatim>\<open>.json\<close>, and nothing else of the request enters it: requests
  with the same identifier have the same key, whatever their \<^verbatim>\<open>max_results\<close>, and
  requests with distinct identifiers have distinct keys. Every read and write a GET
  request makes on the bucket uses that key.
\<close>

theorem cache_key_of_userid:
  "cacheKey_of r = userid_of r @ ''.json'' \<and>
   (userid_of r = userid_of r' \<longrightarrow> cacheKey_of r = cacheKey_of r') \<and>
   (userid_of r \<noteq> userid_of r'' \<longrightarrow> cacheKey_of r \<noteq> cacheKey_of r'') \<and>
   (method r = ''GET'' \<longrightarrow> set (store_keys (calls (fetch r w))) = {userid_of r @ ''.json''})"
  by (simp add: cacheKey_of_def fetch_GET refresh_store_keys split: option.splits)

theorem cache_key_of_userid_witness:
  "userid_of (sample_request [(''userid'', ''111''), (''max_results'', ''3'')]) =
     userid_of (sample_request [(''max_results'', ''10''), (''userid'', ''111'')]) \<and>
   max_results_of (sample_request [(''userid'', ''111''), (''max_results'', ''3'')]) \<noteq>
     max_results_of (sample_request [(''max_results'', ''10''), (''userid'', ''111'')]) \<and>
   userid_of (sample_request [(''userid'', ''111''), (''max_results'', ''3'')]) \<noteq>
     userid_of (sample_request [(''userid'', ''112''), (''max_results'', ''3'')]) \<and>
   method (sample_request [(''userid'', ''111''), (''max_results'', ''3'')]) = ''GET'' \<and>
   cacheKey_of (sample_request [(''userid'', ''111''), (''max_results'', ''3'')]) = ''111.json'' \<and>
   cacheKey_of (sample_request [(''max_results'', ''10''), (''userid'', ''111'')]) = ''111.json'' \<and>
   cacheKey_of (sample_request [(''userid'', ''112''), (''max_results'', ''3'')]) \<noteq> ''111.json'' \<and>
   set (store_keys (calls (fetch (sample_request [(''userid'', ''111''), (''max_results'', ''3'')])
     (sample_world Map.empty None 0)))) = {''111.json''}"
  using cache_key_of_userid
    [of "sample_request [(''userid'', ''111''), (''max_results'', ''3'')]"
        "sample_request [(''max_results'', ''10''), (''userid'', ''111'')]"
        "sample_request [(''userid'', ''112''), (''max_results'', ''3'')]"
        "sample_world Map.empty None 0"]
  by (simp add: sample_request_def cacheKey_of_def userid_of_def searchParams_get_def max_results_of_def
      parseInt_def isWhiteSpace_def isRadixDigit_def digitValue_def radixValue_def)

subsection \<open>Freshness\<close>

text \<open>
  Claim C2, as the code has it. For a GET request whose lookup returns an object, the
  object is served from the cache, with no upstream call, exactly when
  \<^verbatim>\<open>Date.now() - uploaded\<close> is at most 901000 milliseconds, and the upstream is called
  exactly when it is more than 901000 milliseconds: an object exactly 901 seconds old is
  still fresh.
\<close>

theorem freshness_boundary:
  assumes "method r = ''GET''"
    and "MY_BUCKET_get w (cacheKey_of r) = Inr (Some obj)"
  shows "((returned (fetch r w) = cached_response obj \<and> upstream_calls (calls (fetch r w)) = 0)
            = (Date_now w - uploaded obj \<le> 901000)) \<and>
         ((0 < upstream_calls (calls (fetch r w))) = (901000 < Date_now w - uploaded obj))"
  using assms
  by (auto simp add: fetch_GET read_cache_def refresh_upstream_calls upstream_calls_hit)

theorem freshness_boundary_witness:
  "method (sample_request [(''userid'', ''111'')]) = ''GET'' \<and>
   MY_BUCKET_get (sample_world [''111.json'' \<mapsto> sample_object 0] None 901001)
     (cacheKey_of (sample_request [(''userid'', ''111'')])) = Inr (Some (sample_object 0)) \<and>
   901000 < Date_now (sample_world [''111.json'' \<mapsto> sample_object 0] None 901001)
     - uploaded (sample_object 0) \<and>
   0 < upstream_calls (calls (fetch (sample_request [(''userid'', ''111'')])
     (sample_world [''111.json'' \<mapsto> sample_object 0] None 901001)))"
  using freshness_boundary
    [of "sample_request [(''userid'', ''111'')]"
        "sample_world [''111.json'' \<mapsto> sample_object 0] None 901001" "sample_object 0"]
  by (simp add: sample_defs)

text \<open>
  The claim as stated fails at the boundary: with an object uploaded at time 0 and the
  clock at 901000, the age is 901 seconds, not less, and the handler serves the cached
  body without calling the upstream.
\<close>

theorem freshness_boundary_counterexample:
  "MY_BUCKET_get (sample_world [''111.json'' \<mapsto> sample_object 0] None 901000)
     (cacheKey_of (sample_request [(''userid'', ''111'')])) = Inr (Some (sample_object 0)) \<and>
   Date_now (sample_world [''111.json'' \<mapsto> sample_object 0] None 901000)
     - uploaded (sample_object 0) = 901 * 1000 \<and>
   returned (fetch (sample_request [(''userid'', ''111'')])
     (sample_world [''111.json'' \<mapsto> sample_object 0] None 901000)) = cached_response (sample_object 0) \<and>
   calls (fetch (sample_request [(''userid'', ''111'')])
     (sample_world [''111.json'' \<mapsto> sample_object 0] None 901000)) = [BucketGet ''111.json''] \<and>
   upstream_calls (calls (fetch (sample_request [(''userid'', ''111'')])
     (sample_world [''111.json'' \<mapsto> sample_object 0] None 901000))) = 0"
  by (simp add: fetch_GET sample_defs upstream_calls_hit)

text \<open>
  Claim C9. For a GET request whose lookup returns an object uploaded later than
  \<^verbatim>\<open>Date.now()\<close>, the object is served from the cache and the upstream is not called.
\<close>

theorem future_upload_is_fresh:
  assumes "method r = ''GET''"
    and "MY_BUCKET_get w (cacheKey_of r) = Inr (Some obj)"
    and "Date_now w < uploaded obj"
  shows "returned (fetch r w) = cached_response obj \<and>
         calls (fetch r w) = [BucketGet (cacheKey_of r)] \<and>
         upstream_calls (calls (fetch r w)) = 0"
  using assms by (simp add: fetch_GET read_cache_def upstream_calls_hit)

theorem future_upload_is_fresh_witness:
  "method (sample_request [(''userid'', ''111'')]) = ''GET'' \<and>
   MY_BUCKET_get (sample_world [''111.json'' \<mapsto> sample_object 60000] None 0)
     (cacheKey_of (sample_request [(''userid'', ''111'')])) = Inr (Some (sample_object 60000)) \<and>
   Date_now (sample_world [''111.json'' \<mapsto> sample_object 60000] None 0) < uploaded (sample_object 60000) \<and>
   payload (returned (fetch (sample_request [(''userid'', ''111'')])
     (sample_world [''111.json'' \<mapsto> sample_object 60000] None 0))) = ''{\"data\":[]}'' \<and>
   calls (fetch (sample_request [(''userid'', ''111'')])
     (sample_world [''111.json'' \<mapsto> sample_object 60000] None 0)) = [BucketGet ''111.json'']"
  using future_upload_is_fresh
    [of "sample_request [(''userid'', ''111'')]"
        "sample_world [''111.json'' \<mapsto> sample_object 60000] None 0" "sample_object 60000"]
  by (simp add: sample_defs cached_response_def)

subsection \<open>The method gate\<close>

text \<open>
  Claim C5. A request whose method is not GET is answered 405 with the header
  \<^verbatim>\<open>Allow: GET\<close>; the handler calls neither the bucket nor the upstream, and the
  bucket is left as it was.
\<close>

theorem method_gate:
  assumes "method r \<noteq> ''GET''"
  shows "status (returned (fetch r w)) = 405 \<and>
         map_of (headers (returned (fetch r w))) ''Allow'' = Some ''GET'' \<and>
         calls (fetch r w) = [] \<and>
         store_calls (calls (fetch r w)) = 0 \<and>
         upstream_calls (calls (fetch r w)) = 0 \<and>
         bucket_after (fetch r w) = bucket w"
  using assms by (simp add: fetch_def store_calls_def upstream_calls_def)

theorem method_gate_witness:
  "method \<lparr>method = ''POST'', searchParams = [(''userid'', ''111'')]\<rparr> \<noteq> ''GET'' \<and>
   status (returned (fetch \<lparr>method = ''POST'', searchParams = [(''userid'', ''111'')]\<rparr>
     (sample_world [''111.json'' \<mapsto> sample_object 0] None 5))) = 405 \<and>
   calls (fetch \<lparr>method = ''POST'', searchParams = [(''userid'', ''111'')]\<rparr>
     (sample_world [''111.json'' \<mapsto> sample_object 0] None 5)) = []"
  using method_gate
    [of "\<lparr>method = ''POST'', searchParams = [(''userid'', ''111'')]\<rparr>"
        "sample_world [''111.json'' \<mapsto> sample_object 0] None 5"]
  by simp

subsection \<open>When the upstream fails\<close>

text \<open>
  Claim C3. For a GET request whose lookup returned an object, of any age, and whose
  upstream call fails (the call throws, the status is not a success, or the body does
  not parse), the response is 200 with the stored body unchanged: it is the cached
  response, not an error body.
\<close>

theorem stale_fallback:
  assumes get: "method r = ''GET''"
    and hit: "MY_BUCKET_get w (cacheKey_of r) = Inr (Some obj)"
    and failed: "upstream_attempt w r = Inl e"
  shows "returned (fetch r w) = cached_response obj \<and>
         status (returned (fetch r w)) = 200 \<and>
         payload (returned (fetch r w)) = body obj"
proof -
  have object: "read_cache w (cacheKey_of r) = Some obj"
    using hit by (simp add: read_cache_def)
  have caught:
    "(case try_upstream w (twitterUrl_of (userid_of r) (max_results_of r)) of
        Inl e \<Rightarrow> Inl e | Inr resp \<Rightarrow> response_json resp) = Inl e"
    using failed by (simp add: upstream_attempt_def)
  have "returned (fetch r w) = cached_response obj"
    by (simp add: fetch_GET [OF get] object refresh_failure_cached [OF caught])
  then show ?thesis
    by (simp add: cached_response_def)
qed

theorem stale_fallback_witness:
  "method (sample_request [(''userid'', ''111'')]) = ''GET'' \<and>
   MY_BUCKET_get (sample_world [''111.json'' \<mapsto> sample_object 0] (sample_answer 429 None) 5000000)
     (cacheKey_of (sample_request [(''userid'', ''111'')])) = Inr (Some (sample_object 0)) \<and>
   upstream_attempt (sample_world [''111.json'' \<mapsto> sample_object 0] (sample_answer 429 None) 5000000)
     (sample_request [(''userid'', ''111'')]) = Inl (HttpError 429 '''') \<and>
   status (returned (fetch (sample_request [(''userid'', ''111'')])
     (sample_world [''111.json'' \<mapsto> sample_object 0] (sample_answer 429 None) 5000000))) = 200 \<and>
   payload (returned (fetch (sample_request [(''userid'', ''111'')])
     (sample_world [''111.json'' \<mapsto> sample_object 0] (sample_answer 429 None) 5000000))) = ''{\"data\":[]}''"
  using stale_fallback
    [of "sample_request [(''userid'', ''111'')]"
        "sample_world [''111.json'' \<mapsto> sample_object 0] (sample_answer 429 None) 5000000"
        "sample_object 0" "HttpError 429 ''''"]
  by (simp add: sample_defs cached_response_def)

text \<open>
  Claim C4, as the code has it. For a GET request with no entry under its key whose
  upstream call fails, the response is 500. Its body is
  \<^verbatim>\<open>{"error":"Failed to fetch data and no cache available"}\<close> when the call threw or the
  status was not a success, and \<^verbatim>\<open>{"error":"Failed to parse response and no cache available"}\<close>
  when the upstream answered with a success status and a body that does not parse (the
  one case in which the error caught is \<open>SyntaxError\<close>).
\<close>

theorem terminal_error:
  assumes get: "method r = ''GET''"
    and absent: "bucket w (cacheKey_of r) = None"
    and failed: "upstream_attempt w r = Inl e"
  shows "status (returned (fetch r w)) = 500 \<and>
         payload (returned (fetch r w)) =
           (if e = SyntaxError then ''{\"error\":\"Failed to parse response and no cache available\"}''
            else ''{\"error\":\"Failed to fetch data and no cache available\"}'') \<and>
         (e = SyntaxError) =
           (\<exists>resp. upstream w (twitterUrl_of (userid_of r) (max_results_of r)) (upstream_headers w) = Some resp \<and>
              ok resp \<and> up_json resp = None)"
proof -
  have object: "read_cache w (cacheKey_of r) = None"
    using absent by (simp add: read_cache_def MY_BUCKET_get_def)
  have caught:
    "(case try_upstream w (twitterUrl_of (userid_of r) (max_results_of r)) of
        Inl e \<Rightarrow> Inl e | Inr resp \<Rightarrow> response_json resp) = Inl e"
    using failed by (simp add: upstream_attempt_def)
  have answer: "returned (fetch r w) =
      respond
        (JObject [(''error'',
           JString (if e = SyntaxError then ''Failed to parse response and no cache available''
                    else ''Failed to fetch data and no cache available''))])
        (Some 500)"
    by (simp add: fetch_GET [OF get] object refresh_failure_no_cache [OF caught])
  have kind: "(e = SyntaxError) =
      (\<exists>resp. upstream w (twitterUrl_of (userid_of r) (max_results_of r)) (upstream_headers w) = Some resp \<and>
         ok resp \<and> up_json resp = None)"
    using caught
    by (auto simp add: try_upstream_def response_json_def split: option.splits if_splits)
  have "status (returned (fetch r w)) = 500"
    by (simp add: answer respond_def)
  moreover have "payload (returned (fetch r w)) =
      (if e = SyntaxError then ''{\"error\":\"Failed to parse response and no cache available\"}''
       else ''{\"error\":\"Failed to fetch data and no cache available\"}'')"
    using error_body_fetch error_body_parse by (simp add: answer respond_def)
  ultimately show ?thesis
    using kind by blast
qed

theorem terminal_error_witness:
  "method (sample_request [(''userid'', ''111'')]) = ''GET'' \<and>
   bucket (sample_world Map.empty None 0) (cacheKey_of (sample_request [(''userid'', ''111'')])) = None \<and>
   upstream_attempt (sample_world Map.empty None 0) (sample_request [(''userid'', ''111'')]) = Inl NetworkError \<and>
   status (returned (fetch (sample_request [(''userid'', ''111'')]) (sample_world Map.empty None 0))) = 500 \<and>
   payload (returned (fetch (sample_request [(''userid'', ''111'')]) (sample_world Map.empty None 0))) =
     ''{\"error\":\"Failed to fetch data and no cache available\"}''"
  using terminal_error
    [of "sample_request [(''userid'', ''111'')]" "sample_world Map.empty None 0" NetworkError]
  by (simp add: sample_defs)

text \<open>
  The claim as stated fails for a body that does not parse: with an empty bucket and an
  upstream that answers 200 with such a body, the response is 500 with the message
  \<^verbatim>\<open>Failed to parse response and no cache available\<close>, not the message of the claim.
\<close>

theorem terminal_error_counterexample:
  "bucket (sample_world Map.empty (sample_answer 200 None) 0)
     (cacheKey_of (sample_request [(''userid'', ''111'')])) = None \<and>
   upstream_attempt (sample_world Map.empty (sample_answer 200 None) 0)
     (sample_request [(''userid'', ''111'')]) = Inl SyntaxError \<and>
   status (returned (fetch (sample_request [(''userid'', ''111'')])
     (sample_world Map.empty (sample_answer 200 None) 0))) = 500 \<and>
   payload (returned (fetch (sample_request [(''userid'', ''111'')])
     (sample_world Map.empty (sample_answer 200 None) 0))) =
     ''{\"error\":\"Failed to parse response and no cache available\"}'' \<and>
   payload (returned (fetch (sample_request [(''userid'', ''111'')])
     (sample_world Map.empty (sample_answer 200 None) 0))) \<noteq>
     ''{\"error\":\"Failed to fetch data and no cache available\"}''"
  by (simp add: fetch_GET sample_defs refresh_def respond_def quoteJSONString_def quoteChar_def)

subsection \<open>When the bucket fails\<close>

text \<open>
  Claim C6. For a GET request whose read of the bucket throws, the handler goes on as it
  does when the key is absent and the read succeeds: the upstream is called once, and
  the response and the calls made are those of that other world.
\<close>

theorem read_failure_is_miss:
  assumes get: "method r = ''GET''"
    and throws: "get_throws w (cacheKey_of r)"
  shows "returned (fetch r w) =
           returned (fetch r (w\<lparr>get_throws := (\<lambda>key. False), bucket := (bucket w)(cacheKey_of r := None)\<rparr>)) \<and>
         calls (fetch r w) =
           calls (fetch r (w\<lparr>get_throws := (\<lambda>key. False), bucket := (bucket w)(cacheKey_of r := None)\<rparr>)) \<and>
         upstream_calls (calls (fetch r w)) = 1"
proof -
  let ?w' = "w\<lparr>get_throws := (\<lambda>key. False), bucket := (bucket w)(cacheKey_of r := None)\<rparr>"
  have here: "fetch r w = refresh w (userid_of r) (max_results_of r) (cacheKey_of r) None"
    using throws by (simp add: fetch_GET [OF get] read_cache_def MY_BUCKET_get_def)
  have there: "fetch r ?w' = refresh ?w' (userid_of r) (max_results_of r) (cacheKey_of r) None"
    by (simp add: fetch_GET [OF get] read_cache_def MY_BUCKET_get_def)
  have same: "upstream w = upstream ?w'" "TWITTER_BEARER_TOKEN w = TWITTER_BEARER_TOKEN ?w'"
    by simp_all
  show ?thesis
    unfolding here there
    using refresh_returned_calls_cong [OF same] by (simp add: refresh_upstream_calls)
qed

theorem read_failure_is_miss_witness:
  "method (sample_request [(''userid'', ''111'')]) = ''GET'' \<and>
   get_throws ((sample_world [''111.json'' \<mapsto> sample_object 0] None 5)\<lparr>get_throws := (\<lambda>key. True)\<rparr>)
     (cacheKey_of (sample_request [(''userid'', ''111'')])) \<and>
   returned (fetch (sample_request [(''userid'', ''111'')])
     ((sample_world [''111.json'' \<mapsto> sample_object 0] None 5)\<lparr>get_throws := (\<lambda>key. True)\<rparr>)) =
   returned (fetch (sample_request [(''userid'', ''111'')]) (sample_world Map.empty None 5)) \<and>
   status (returned (fetch (sample_request [(''userid'', ''111'')])
     ((sample_world [''111.json'' \<mapsto> sample_object 0] None 5)\<lparr>get_throws := (\<lambda>key. True)\<rparr>))) = 500"
  using read_failure_is_miss
    [of "sample_request [(''userid'', ''111'')]"
        "(sample_world [''111.json'' \<mapsto> sample_object 0] None 5)\<lparr>get_throws := (\<lambda>key. True)\<rparr>"]
  by (simp add: sample_defs fetch_GET refresh_def respond_def)

text \<open>
  Claim C7. For a GET request whose upstream call is made and succeeds with a body that
  parses, the response is \<^verbatim>\<open>respond(data)\<close>: status 200 and the serialised data, whether
  the write to the bucket succeeds or throws.
\<close>

theorem write_failure_is_ignored:
  assumes get: "method r = ''GET''"
    and called: "0 < upstream_calls (calls (fetch r w))"
    and up: "upstream_attempt w r = Inr data"
  shows "returned (fetch r w) = respond data None \<and>
         returned (fetch r (w\<lparr>put_throws := p\<rparr>)) = returned (fetch r w) \<and>
         status (returned (fetch r w)) = 200 \<and>
         payload (returned (fetch r w)) = JSON_stringify data"
proof -
  let ?go = "\<lambda>v. refresh v (userid_of r) (max_results_of r) (cacheKey_of r) (read_cache w (cacheKey_of r))"
  from up obtain resp
    where resp: "try_upstream w (twitterUrl_of (userid_of r) (max_results_of r)) = Inr resp"
      and data: "response_json resp = Inr data"
    using upstream_attempt_success by blast
  have stale: "case read_cache w (cacheKey_of r) of None \<Rightarrow> True
               | Some obj \<Rightarrow> uploaded obj < Date_now w - 901000"
    using called by (simp add: fetch_GET [OF get] upstream_calls_hit split: option.splits if_splits)
  have here: "fetch r w = ?go w"
    using stale by (simp add: fetch_GET [OF get] split: option.splits)
  have there: "fetch r (w\<lparr>put_throws := p\<rparr>) = ?go (w\<lparr>put_throws := p\<rparr>)"
    using stale by (simp add: fetch_GET [OF get] read_cache_put_throws split: option.splits)
  have r1: "returned (fetch r w) = respond data None"
    unfolding here by (rule refresh_success [OF resp data])
  have r2: "returned (fetch r (w\<lparr>put_throws := p\<rparr>)) = respond data None"
    unfolding there
    by (rule refresh_success [where resp = resp]) (simp_all add: try_upstream_put_throws resp data)
  show ?thesis
    using r1 r2 by (simp add: respond_def)
qed

theorem write_failure_is_ignored_witness:
  "method (sample_request [(''userid'', ''111'')]) = ''GET'' \<and>
   0 < upstream_calls (calls (fetch (sample_request [(''userid'', ''111'')])
     (sample_world Map.empty (sample_answer 200 (Some (JObject [(''data'', JArray [])]))) 5))) \<and>
   upstream_attempt (sample_world Map.empty (sample_answer 200 (Some (JObject [(''data'', JArray [])]))) 5)
     (sample_request [(''userid'', ''111'')]) = Inr (JObject [(''data'', JArray [])]) \<and>
   status (returned (fetch (sample_request [(''userid'', ''111'')])
     ((sample_world Map.empty (sample_answer 200 (Some (JObject [(''data'', JArray [])]))) 5)
        \<lparr>put_throws := (\<lambda>key. True)\<rparr>))) = 200 \<and>
   payload (returned (fetch (sample_request [(''userid'', ''111'')])
     ((sample_world Map.empty (sample_answer 200 (Some (JObject [(''data'', JArray [])]))) 5)
        \<lparr>put_throws := (\<lambda>key. True)\<rparr>))) = ''{\"data\":[]}''"
  using write_failure_is_ignored
    [of "sample_request [(''userid'', ''111'')]"
        "sample_world Map.empty (sample_answer 200 (Some (JObject [(''data'', JArray [])]))) 5"
        "JObject [(''data'', JArray [])]" "\<lambda>key. True"]
  by (simp add: sample_defs fetch_GET refresh_upstream_calls respond_def quoteJSONString_def quoteChar_def)

subsection \<open>Parameter defaults\<close>

text \<open>
  Claim C8. A request with no \<^verbatim>\<open>userid\<close> parameter has the subject identifier
  \<^verbatim>\<open>1472197491844026370\<close> and the cache key \<^verbatim>\<open>1472197491844026370.json\<close>, which is the
  key of every bucket call a GET request of that kind makes; a request whose
  \<^verbatim>\<open>max_results\<close> parameter is absent, or present with a value for which \<^verbatim>\<open>parseInt\<close>
  gives \<^verbatim>\<open>NaN\<close>, has the size limit 6.
\<close>

theorem parameter_defaults:
  "(searchParams_get r ''userid'' = None \<longrightarrow>
      userid_of r = ''1472197491844026370'' \<and> cacheKey_of r = ''1472197491844026370.json'') \<and>
   (searchParams_get r ''userid'' = None \<and> method r = ''GET'' \<longrightarrow>
      set (store_keys (calls (fetch r w))) = {''1472197491844026370.json''}) \<and>
   (searchParams_get r1 ''max_results'' = None \<longrightarrow> max_results_of r1 = Num 6) \<and>
   (searchParams_get r2 ''max_results'' = Some v \<and> parseInt v = NaN \<longrightarrow> max_results_of r2 = Num 6)"
proof -
  have key: "cacheKey_of r = ''1472197491844026370.json''"
    if "searchParams_get r ''userid'' = None"
    using that by (simp add: cacheKey_of_def userid_of_def)
  have used: "set (store_keys (calls (fetch r w))) = {cacheKey_of r}" if "method r = ''GET''"
    by (simp add: fetch_GET [OF that] refresh_store_keys split: option.splits)
  show ?thesis
    using key used max_results_absent [of r1] max_results_falsy [of r2 v]
    by (auto simp add: userid_of_def)
qed

theorem parameter_defaults_witness:
  "searchParams_get (sample_request []) ''userid'' = None \<and>
   method (sample_request []) = ''GET'' \<and>
   searchParams_get (sample_request []) ''max_results'' = None \<and>
   searchParams_get (sample_request [(''max_results'', ''invalid'')]) ''max_results'' = Some ''invalid'' \<and>
   parseInt ''invalid'' = NaN \<and>
   userid_of (sample_request []) = ''1472197491844026370'' \<and>
   cacheKey_of (sample_request []) = ''1472197491844026370.json'' \<and>
   set (store_keys (calls (fetch (sample_request []) (sample_world Map.empty None 0)))) =
     {''1472197491844026370.json''} \<and>
   max_results_of (sample_request []) = Num 6 \<and>
   max_results_of (sample_request [(''max_results'', ''invalid'')]) = Num 6"
  using parameter_defaults
    [of "sample_request []" "sample_world Map.empty None 0" "sample_request []"
        "sample_request [(''max_results'', ''invalid'')]" "''invalid''"]
  by (simp add: sample_request_def searchParams_get_def parseInt_def isWhiteSpace_def
      isRadixDigit_def digitValue_def)

subsection \<open>Falsy parameter values\<close>

text \<open>
  Claim C10. A request whose \<^verbatim>\<open>max_results\<close> value parses to 0 or to \<^verbatim>\<open>NaN\<close> is handled
  as the request that differs from it only in giving \<^verbatim>\<open>max_results=6\<close>: response, calls
  and bucket are the same. A request with an empty \<^verbatim>\<open>userid\<close> is handled as the request
  that differs from it only in having no \<^verbatim>\<open>userid\<close>, with the default identifier and
  its cache key.
\<close>

theorem falsy_parameters:
  "(method r1 = method r2 \<and>
    searchParams_get r1 ''userid'' = searchParams_get r2 ''userid'' \<and>
    searchParams_get r1 ''max_results'' = Some v \<and> (parseInt v = NaN \<or> parseInt v = Num 0) \<and>
    searchParams_get r2 ''max_results'' = Some ''6'' \<longrightarrow>
      fetch r1 w = fetch r2 w) \<and>
   (method r3 = method r4 \<and>
    searchParams_get r3 ''max_results'' = searchParams_get r4 ''max_results'' \<and>
    searchParams_get r3 ''userid'' = Some [] \<and> searchParams_get r4 ''userid'' = None \<longrightarrow>
      fetch r3 w = fetch r4 w \<and>
      userid_of r3 = ''1472197491844026370'' \<and> cacheKey_of r3 = ''1472197491844026370.json'')"
proof -
  have first: "fetch r1 w = fetch r2 w"
    if "method r1 = method r2"
      and "searchParams_get r1 ''userid'' = searchParams_get r2 ''userid''"
      and "searchParams_get r1 ''max_results'' = Some v"
      and "parseInt v = NaN \<or> parseInt v = Num 0"
      and "searchParams_get r2 ''max_results'' = Some ''6''"
  proof (rule fetch_depends_on)
    show "method r1 = method r2" by (rule that(1))
    show "userid_of r1 = userid_of r2" using that(2) by (simp add: userid_of_def)
    have "max_results_of r1 = Num 6" by (rule max_results_falsy [OF that(3) that(4)])
    moreover have "max_results_of r2 = Num 6"
      using that(5) by (simp add: max_results_of_def parseInt_6)
    ultimately show "max_results_of r1 = max_results_of r2" by simp
  qed
  have second: "fetch r3 w = fetch r4 w \<and>
      userid_of r3 = ''1472197491844026370'' \<and> cacheKey_of r3 = ''1472197491844026370.json''"
    if "method r3 = method r4"
      and "searchParams_get r3 ''max_results'' = searchParams_get r4 ''max_results''"
      and "searchParams_get r3 ''userid'' = Some []"
      and "searchParams_get r4 ''userid'' = None"
  proof -
    have u3: "userid_of r3 = ''1472197491844026370''" using that(3) by (simp add: userid_of_def)
    have u4: "userid_of r4 = ''1472197491844026370''" using that(4) by (simp add: userid_of_def)
    have m: "max_results_of r3 = max_results_of r4" using that(2) by (simp add: max_results_of_def)
    have "fetch r3 w = fetch r4 w"
      by (rule fetch_depends_on) (simp_all add: that(1) u3 u4 m)
    then show ?thesis using u3 by (simp add: cacheKey_of_def)
  qed
  show ?thesis
    using first second by blast
qed

theorem falsy_parameters_witness:
  "method (sample_request [(''userid'', ''111''), (''max_results'', ''0'')]) =
     method (sample_request [(''userid'', ''111''), (''max_results'', ''6'')]) \<and>
   searchParams_get (sample_request [(''userid'', ''111''), (''max_results'', ''0'')]) ''userid'' =
     searchParams_get (sample_request [(''userid'', ''111''), (''max_results'', ''6'')]) ''userid'' \<and>
   searchParams_get (sample_request [(''userid'', ''111''), (''max_results'', ''0'')]) ''max_results'' = Some ''0'' \<and>
   parseInt ''0'' = Num 0 \<and>
   searchParams_get (sample_request [(''userid'', ''111''), (''max_results'', ''6'')]) ''max_results'' = Some ''6'' \<and>
   method (sample_request [(''userid'', [])]) = method (sample_request []) \<and>
   searchParams_get (sample_request [(''userid'', [])]) ''max_results'' =
     searchParams_get (sample_request []) ''max_results'' \<and>
   searchParams_get (sample_request [(''userid'', [])]) ''userid'' = Some [] \<and>
   searchParams_get (sample_request []) ''userid'' = None \<and>
   fetch (sample_request [(''userid'', ''111''), (''max_results'', ''0'')])
       (sample_world Map.empty None 0) =
     fetch (sample_request [(''userid'', ''111''), (''max_results'', ''6'')])
       (sample_world Map.empty None 0) \<and>
   fetch (sample_request [(''userid'', [])]) (sample_world Map.empty None 0) =
     fetch (sample_request []) (sample_world Map.empty None 0) \<and>
   cacheKey_of (sample_request [(''userid'', [])]) = ''1472197491844026370.json''"
proof -
  have zero: "parseInt ''0'' = Num 0"
    by (simp add: parseInt_def isWhiteSpace_def isRadixDigit_def digitValue_def radixValue_def)
  show ?thesis
    using zero falsy_parameters
      [of "sample_request [(''userid'', ''111''), (''max_results'', ''0'')]"
          "sample_request [(''userid'', ''111''), (''max_results'', ''6'')]" "''0''"
          "sample_world Map.empty None 0" "sample_request [(''userid'', [])]" "sample_request []"]
    by (simp add: sample_request_def searchParams_get_def)
qed

end
